theory Spec2Isabelle
  imports Complex_Main "HOL-Library.Sublist" "HOL-Library.Char_ord" "HOL-Library.List_Lexorder"
begin

section \<open>Region-model training pipeline (scripts/train\_inferred\_region\_model.py)\<close>

text \<open>
  The script reads visit records (one JSON object per line), derives a region label and a
  feature vector for each record, encodes the labels and trains and exports a classifier.
  This theory embeds the label extractor, the feature builder, the dataset assembler, the
  metadata writer and the pipeline driver.

  Conventions of the embedding.
  \<^item> A decoded JSON value is a \<open>json\<close>; a Python dict is an association list read with
    \<open>map_of\<close> (keys of a decoded object are unique, so the first binding is the binding).
  \<^item> A record is the \<open>dict\<close> that the signatures of \<open>extract_label\<close> and
    \<open>build_features\<close> declare. The rows that the dataset assembler iterates are pandas
    \<open>Series\<close>: the assembler and the driver are stated for any type of rows.
  \<^item> Python floats are idealised as reals: rounding, NaN and an infinite value in a record
    are not represented. In the label extractor float overflow is represented, with the
    threshold of binary64: \<open>OverflowError\<close> where Python raises it, and the infinite float
    as \<open>None\<close> where the operation overflows silently. In the feature builder it is not,
    and the properties of the builder are stated of the calls that return.
  \<^item> Strings are lists of 8-bit characters; \<open>str.lower\<close> is modelled on ASCII letters.
  \<^item> An exception is a value \<open>Inl e\<close> of \<open>py_error + 'a\<close>.
\<close>

subsection \<open>Python values\<close>

datatype json =
    JNull
  | JBool bool
  | JInt int
  | JFloat real
  | JStr string
  | JArr "json list"
  | JObj "(string \<times> json) list"

datatype py_error =
  TypeError | AttributeError | ValueError | IndexError | AssertionError | OverflowError | LibraryError

type_synonym pydict = "(string \<times> json) list"

text \<open>\<open>d.get(k, default)\<close>; \<open>d.get(k)\<close> is \<open>py_get d k JNull\<close>.\<close>

definition py_get :: "pydict \<Rightarrow> string \<Rightarrow> json \<Rightarrow> json" where
  "py_get d k dflt = (case map_of d k of None \<Rightarrow> dflt | Some v \<Rightarrow> v)"

text \<open>Truth value of an object in a Python condition.\<close>

fun truthy :: "json \<Rightarrow> bool" where
  "truthy JNull = False"
| "truthy (JBool b) = b"
| "truthy (JInt i) = (i \<noteq> 0)"
| "truthy (JFloat r) = (r \<noteq> 0)"
| "truthy (JStr s) = (s \<noteq> [])"
| "truthy (JArr xs) = (xs \<noteq> [])"
| "truthy (JObj kvs) = (kvs \<noteq> [])"

text \<open>The value of an operand of Python arithmetic: \<open>bool\<close> is a subclass of \<open>int\<close>;
  every other non-number makes the operator raise \<open>TypeError\<close>.\<close>

fun num_of :: "json \<Rightarrow> real option" where
  "num_of (JBool b) = Some (if b then 1 else 0)"
| "num_of (JInt i) = Some (of_int i)"
| "num_of (JFloat r) = Some r"
| "num_of _ = None"

definition py_num :: "json \<Rightarrow> py_error + real" where
  "py_num v = (case num_of v of None \<Rightarrow> Inl TypeError | Some r \<Rightarrow> Inr r)"

text \<open>\<open>str.lower\<close> on ASCII.\<close>

definition lower_char :: "char \<Rightarrow> char" where
  "lower_char c =
     (case map_of (zip ''ABCDEFGHIJKLMNOPQRSTUVWXYZ'' ''abcdefghijklmnopqrstuvwxyz'') c of
        None \<Rightarrow> c | Some d \<Rightarrow> d)"

definition lower :: "string \<Rightarrow> string" where
  "lower s = map lower_char s"

text \<open>\<open>sub in s\<close> on strings: \<open>sub\<close> occurs as a contiguous substring of \<open>s\<close>.\<close>

fun str_in :: "string \<Rightarrow> string \<Rightarrow> bool" where
  "str_in sub [] = (sub = [])"
| "str_in sub (c # cs) = (prefix sub (c # cs) \<or> str_in sub cs)"

subsection \<open>Region catalog\<close>

record region_meta =
  name :: string
  country :: string
  lat :: real
  lon :: real

definition REGION_DEFINITIONS :: "(string \<times> region_meta) list" where
  "REGION_DEFINITIONS =
    [(''eu-ams'', \<lparr>name = ''Amsterdam Metro'', country = ''NL'', lat = 52.3676, lon = 4.9041\<rparr>),
     (''eu-bru'', \<lparr>name = ''Brussels Metro'', country = ''BE'', lat = 50.8503, lon = 4.3517\<rparr>),
     (''eu-fra'', \<lparr>name = ''Frankfurt Metro'', country = ''DE'', lat = 50.1109, lon = 8.6821\<rparr>),
     (''eu-ber'', \<lparr>name = ''Berlin Metro'', country = ''DE'', lat = 52.5200, lon = 13.4050\<rparr>),
     (''eu-par'', \<lparr>name = ''Paris Metro'', country = ''FR'', lat = 48.8566, lon = 2.3522\<rparr>),
     (''eu-lon'', \<lparr>name = ''London Metro'', country = ''GB'', lat = 51.5074, lon = - 0.1278\<rparr>),
     (''us-nyc'', \<lparr>name = ''New York Metro'', country = ''US'', lat = 40.7128, lon = - 74.0060\<rparr>),
     (''us-lax'', \<lparr>name = ''Los Angeles Metro'', country = ''US'', lat = 34.0522, lon = - 118.2437\<rparr>),
     (''us-chi'', \<lparr>name = ''Chicago Metro'', country = ''US'', lat = 41.8781, lon = - 87.6298\<rparr>),
     (''ap-tok'', \<lparr>name = ''Tokyo Metro'', country = ''JP'', lat = 35.6762, lon = 139.6503\<rparr>)]"

subsection \<open>Label extractor\<close>

text \<open>
  Float arithmetic of the distance
  \<open>((lat - meta['lat']) ** 2 + (lon - meta['lon']) ** 2) ** 0.5\<close>. A result whose exact
  value reaches \<open>FLOAT_OVERFLOW\<close> is beyond the largest double (rounding below that bound is
  not modelled). An operand that is not a number makes the subtraction raise \<open>TypeError\<close>;
  an int too large for a float makes it raise \<open>OverflowError\<close>; \<open>** 2\<close> raises
  \<open>OverflowError\<close> when the square overflows; \<open>+\<close> overflows silently to \<open>inf\<close>, and
  \<open>inf ** 0.5\<close> is \<open>inf\<close>. The infinite float is \<open>None\<close>.
\<close>

definition FLOAT_OVERFLOW :: real where
  "FLOAT_OVERFLOW = 2 ^ 1024 - 2 ^ 970"

fun py_float :: "json \<Rightarrow> py_error + real" where
  "py_float (JBool b) = Inr (if b then 1 else 0)"
| "py_float (JInt i) =
     (if FLOAT_OVERFLOW \<le> \<bar>of_int i\<bar> then Inl OverflowError else Inr (of_int i))"
| "py_float (JFloat r) = Inr r"
| "py_float _ = Inl TypeError"

definition py_square :: "real \<Rightarrow> py_error + real" where
  "py_square x = (if FLOAT_OVERFLOW \<le> x\<^sup>2 then Inl OverflowError else Inr (x\<^sup>2))"

definition root_of_sum :: "real \<Rightarrow> real \<Rightarrow> real option" where
  "root_of_sum a b = (if FLOAT_OVERFLOW \<le> a + b then None else Some (sqrt (a + b)))"

text \<open>The operands are evaluated from left to right: the latitude term first.\<close>

definition distance_to :: "json \<Rightarrow> json \<Rightarrow> region_meta \<Rightarrow> py_error + real option" where
  "distance_to la lo m =
     (case py_float la of Inl e \<Rightarrow> Inl e | Inr x \<Rightarrow>
      (case py_square (x - lat m) of Inl e \<Rightarrow> Inl e | Inr dx \<Rightarrow>
       (case py_float lo of Inl e \<Rightarrow> Inl e | Inr y \<Rightarrow>
        (case py_square (y - lon m) of Inl e \<Rightarrow> Inl e | Inr dy \<Rightarrow>
           Inr (root_of_sum dx dy)))))"

text \<open>\<open>a < b\<close> on floats that may be \<open>inf\<close>.\<close>

fun lt_best :: "real option \<Rightarrow> real option \<Rightarrow> bool" where
  "lt_best None b = False"
| "lt_best (Some d) None = True"
| "lt_best (Some d) (Some b) = (d < b)"

text \<open>
  \<open>nearest_region_by_coords\<close>: the loop over the catalog, with the state
  \<open>(best_region, best_distance)\<close>, which starts as \<open>(None, float('inf'))\<close>.
\<close>

fun nearest_loop ::
  "json \<Rightarrow> json \<Rightarrow> (string \<times> region_meta) list \<Rightarrow> string option \<times> real option
     \<Rightarrow> py_error + (string option \<times> real option)" where
  "nearest_loop la lo [] best = Inr best"
| "nearest_loop la lo ((region_id, m) # rest) (best_region, best_distance) =
     (case distance_to la lo m of
        Inl e \<Rightarrow> Inl e
      | Inr distance \<Rightarrow>
          if lt_best distance best_distance
          then nearest_loop la lo rest (Some region_id, distance)
          else nearest_loop la lo rest (best_region, best_distance))"

definition nearest_region_by_coords :: "json \<Rightarrow> json \<Rightarrow> py_error + string option" where
  "nearest_region_by_coords la lo =
     (case nearest_loop la lo REGION_DEFINITIONS (None, None) of
        Inl e \<Rightarrow> Inl e
      | Inr (best_region, best_distance) \<Rightarrow>
          Inr (if lt_best best_distance (Some 100) then best_region else None))"

text \<open>\<open>find_region_by_city\<close>: \<open>city.lower()\<close> exists on strings only; the first region in
  catalog order whose lowered name contains the lowered city wins.\<close>

fun city_loop :: "string \<Rightarrow> (string \<times> region_meta) list \<Rightarrow> string option" where
  "city_loop city_lower [] = None"
| "city_loop city_lower ((region_id, m) # rest) =
     (if str_in city_lower (lower (name m)) then Some region_id
      else city_loop city_lower rest)"

fun find_region_by_city :: "json \<Rightarrow> py_error + string option" where
  "find_region_by_city (JStr city) = Inr (city_loop (lower city) REGION_DEFINITIONS)"
| "find_region_by_city _ = Inl AttributeError"

text \<open>\<open>if region: return region\<close>: a region identifier that is the empty string is falsy.\<close>

fun region_truthy :: "string option \<Rightarrow> bool" where
  "region_truthy None = False"
| "region_truthy (Some r) = (r \<noteq> [])"

definition asn_step :: "pydict \<Rightarrow> py_error + string option" where
  "asn_step row =
     (if truthy (py_get row ''asn_inferred_city'' JNull) then
        (case find_region_by_city (py_get row ''asn_inferred_city'' JNull) of
           Inl e \<Rightarrow> Inl e
         | Inr region \<Rightarrow> if region_truthy region then Inr region else Inr None)
      else Inr None)"

definition geoip_step :: "pydict \<Rightarrow> py_error + string option" where
  "geoip_step row =
     (if truthy (py_get row ''geoip_city'' JNull) then
        (case find_region_by_city (py_get row ''geoip_city'' JNull) of
           Inl e \<Rightarrow> Inl e
         | Inr region \<Rightarrow> if region_truthy region then Inr region else asn_step row)
      else asn_step row)"

definition extract_label :: "pydict \<Rightarrow> py_error + string option" where
  "extract_label row =
     (if truthy (py_get row ''latitude'' JNull) \<and> truthy (py_get row ''longitude'' JNull)
      then nearest_region_by_coords (py_get row ''latitude'' JNull) (py_get row ''longitude'' JNull)
      else geoip_step row)"


subsection \<open>Feature builder\<close>

text \<open>
  \<open>pd.to_datetime\<close> and \<open>pd.Timestamp.now\<close> belong to pandas. The builder reads two
  attributes of the timestamp they give, so a timestamp is the pair of those attributes. The
  clock reading is a parameter \<open>now\<close>, and the parser is a parameter \<open>to_datetime\<close> that takes
  the clock reading before the value, since pandas parses strings such as \<open>'now'\<close> and
  \<open>'today'\<close> against the clock.
\<close>

record tstamp =
  hour :: nat
  weekday :: nat

text \<open>\<open>normalize_rtt\<close>: \<open>max(0.0, min(1.0, (rtt_ms - 10) / 490))\<close>.\<close>

definition normalize_rtt :: "json \<Rightarrow> py_error + real" where
  "normalize_rtt rtt_ms =
     (case py_num rtt_ms of Inl e \<Rightarrow> Inl e | Inr r \<Rightarrow> Inr (max 0 (min 1 ((r - 10) / 490))))"

text \<open>The four correlation features. \<open>correlation.get\<close> exists on a dict only; division and
  comparison with a number raise \<open>TypeError\<close> on a value that is not a number.\<close>

definition correlation_features :: "pydict \<Rightarrow> py_error + json list" where
  "correlation_features row =
     (let correlation = py_get row ''asn_correlation'' (JObj []) in
      if truthy correlation then
        (case correlation of
           JObj c \<Rightarrow>
             (case normalize_rtt (py_get c ''average_deviation'' (JInt 0)) of
                Inl e \<Rightarrow> Inl e
              | Inr f0 \<Rightarrow>
                 (case py_num (py_get c ''matching_asns'' (JInt 0)) of
                    Inl e \<Rightarrow> Inl e
                  | Inr asns \<Rightarrow>
                     (case py_num (py_get c ''visit_count'' (JInt 0)) of
                        Inl e \<Rightarrow> Inl e
                      | Inr visits \<Rightarrow>
                          Inr [JFloat f0,
                               py_get c ''pattern_similarity'' (JInt 0),
                               JFloat (asns / 50),
                               JFloat (if visits > 0 then 1 else 0)])))
         | _ \<Rightarrow> Inl AttributeError)
      else Inr [JFloat 0, JFloat 0, JFloat 0, JFloat 0])"

text \<open>Timezone: \<open>tz_minutes / 60.0 if tz_minutes else 0.0\<close>, then divided by 12 and clamped.\<close>

definition timezone_feature :: "pydict \<Rightarrow> py_error + real" where
  "timezone_feature row =
     (let tz_minutes = py_get row ''timezone_offset_minutes'' (JInt 0) in
      case (if truthy tz_minutes
            then (case py_num tz_minutes of Inl e \<Rightarrow> Inl e | Inr r \<Rightarrow> Inr (r / 60))
            else Inr 0) of
        Inl e \<Rightarrow> Inl e
      | Inr tz_hours \<Rightarrow> Inr (max (- 1) (min 1 (tz_hours / 12))))"

text \<open>The lookup in the literal dict \<open>{'high': 1.0, 'medium': 0.5, 'low': 0.25}\<close> with default
  \<open>0.0\<close>; a list or a dict as key is unhashable.\<close>

fun suspicion_score :: "json \<Rightarrow> py_error + real" where
  "suspicion_score (JStr s) =
     Inr (case map_of [(''high'', 1), (''medium'', 0.5), (''low'', 0.25)] s of
            None \<Rightarrow> 0 | Some x \<Rightarrow> x)"
| "suspicion_score (JArr xs) = Inl TypeError"
| "suspicion_score (JObj kvs) = Inl TypeError"
| "suspicion_score _ = Inr 0"

text \<open>The two VPN features. \<open>vpn.get\<close> exists on a dict only.\<close>

definition vpn_features :: "pydict \<Rightarrow> py_error + json list" where
  "vpn_features row =
     (case py_get row ''vpn_detection'' (JObj []) of
        JObj vpn \<Rightarrow>
          (let is_vpn = (if truthy (py_get vpn ''is_likely_vpn'' (JBool False)) then 1 else 0);
               suspicion_level = py_get vpn ''suspicion_level'' (JStr ''low'')
           in case suspicion_score suspicion_level of
                Inl e \<Rightarrow> Inl e
              | Inr score \<Rightarrow> Inr [JFloat is_vpn, JFloat score])
      | _ \<Rightarrow> Inl AttributeError)"

text \<open>\<open>pd.to_datetime(row.get('timestamp', pd.Timestamp.now()))\<close>, then \<open>hour / 24.0\<close> and
  \<open>weekday() / 7.0\<close>. Of the timestamp that \<open>pd.Timestamp.now()\<close> gives, \<open>pd.to_datetime\<close>
  is that timestamp.\<close>

definition row_timestamp ::
  "(tstamp \<Rightarrow> json \<Rightarrow> py_error + tstamp) \<Rightarrow> tstamp \<Rightarrow> pydict \<Rightarrow> py_error + tstamp" where
  "row_timestamp to_datetime now row =
     (case map_of row ''timestamp'' of None \<Rightarrow> Inr now | Some v \<Rightarrow> to_datetime now v)"

definition time_features ::
  "(tstamp \<Rightarrow> json \<Rightarrow> py_error + tstamp) \<Rightarrow> tstamp \<Rightarrow> pydict \<Rightarrow> py_error + json list" where
  "time_features to_datetime now row =
     (case row_timestamp to_datetime now row of
        Inl e \<Rightarrow> Inl e
      | Inr timestamp \<Rightarrow>
          Inr [JFloat (real (hour timestamp) / 24), JFloat (real (weekday timestamp) / 7)])"

text \<open>\<open>len\<close> is defined on strings, lists and dicts.\<close>

fun py_len :: "json \<Rightarrow> py_error + nat" where
  "py_len (JStr s) = Inr (length s)"
| "py_len (JArr xs) = Inr (length xs)"
| "py_len (JObj kvs) = Inr (length kvs)"
| "py_len _ = Inl TypeError"

text \<open>\<open>0.5 if locale and len(locale) > 2 else 0.0\<close>; \<open>and\<close> does not evaluate \<open>len\<close> on a
  falsy locale.\<close>

definition locale_feature :: "pydict \<Rightarrow> py_error + real" where
  "locale_feature row =
     (let locale = py_get row ''locale'' (JStr []) in
      if truthy locale then
        (case py_len locale of Inl e \<Rightarrow> Inl e | Inr n \<Rightarrow> Inr (if n > 2 then 0.5 else 0))
      else Inr 0)"

text \<open>
  \<open>build_features\<close>: the list \<open>features\<close> in the order it is appended to, which is what
  \<open>np.array(features)\<close> wraps. The first exception met, in program order, is the result.
\<close>

definition build_features ::
  "(tstamp \<Rightarrow> json \<Rightarrow> py_error + tstamp) \<Rightarrow> tstamp \<Rightarrow> pydict \<Rightarrow> py_error + json list" where
  "build_features to_datetime now row =
     (case correlation_features row of Inl e \<Rightarrow> Inl e | Inr corr \<Rightarrow>
      (case timezone_feature row of Inl e \<Rightarrow> Inl e | Inr tz_normalized \<Rightarrow>
       (case vpn_features row of Inl e \<Rightarrow> Inl e | Inr vpn \<Rightarrow>
        (case time_features to_datetime now row of Inl e \<Rightarrow> Inl e | Inr time \<Rightarrow>
         (case locale_feature row of Inl e \<Rightarrow> Inl e | Inr locale_score \<Rightarrow>
            Inr (corr @ [JFloat tz_normalized] @ vpn @ time @ [JFloat locale_score]))))))"

subsection \<open>Dataset assembler\<close>

text \<open>
  \<open>LabelEncoder\<close> belongs to scikit-learn. \<open>fit_transform\<close> stores in \<open>classes_\<close> the
  distinct labels in sorted order and returns, for each label, its position in \<open>classes_\<close>.
  Strings are compared character by character, as Python compares them.
\<close>

definition label_classes :: "string list \<Rightarrow> string list" where
  "label_classes labels = sort (remdups labels)"

fun index_of :: "'a list \<Rightarrow> 'a \<Rightarrow> nat" where
  "index_of [] x = 0"
| "index_of (y # ys) x = (if x = y then 0 else Suc (index_of ys x))"

definition fit_transform :: "string list \<Rightarrow> nat list \<times> string list" where
  "fit_transform labels =
     (let classes = label_classes labels in (map (index_of classes) labels, classes))"

text \<open>
  \<open>prepare_training_data\<close>: the loop over \<open>df.iterrows()\<close> with the state
  \<open>(features, labels, skipped)\<close>; a row whose label is falsy (\<open>None\<close> or empty) is skipped
  before its features are built, and an exception of either step ends the loop.

  A row of the frame is a pandas \<open>Series\<close>, not the dict of its record: a field that the
  record lacks and another record has is \<open>NaN\<close> in it, so what \<open>extract_label\<close> and
  \<open>build_features\<close> do on a row depends on pandas. The loop is stated for any type of rows,
  with the two calls \<open>self.extract_label(row)\<close> and \<open>self.build_features(row)\<close> as its
  parameters \<open>extract\<close> and \<open>build\<close>. On a frame whose rows hold exactly the fields of
  their records these are the two functions above.
\<close>

fun prepare_loop ::
  "('row \<Rightarrow> py_error + string option) \<Rightarrow> ('row \<Rightarrow> py_error + json list) \<Rightarrow> 'row list
     \<Rightarrow> json list list \<times> string list \<times> nat
     \<Rightarrow> py_error + (json list list \<times> string list \<times> nat)" where
  "prepare_loop extract build [] acc = Inr acc"
| "prepare_loop extract build (row # rest) (features, labels, skipped) =
     (case extract row of
        Inl e \<Rightarrow> Inl e
      | Inr None \<Rightarrow> prepare_loop extract build rest (features, labels, skipped + 1)
      | Inr (Some label) \<Rightarrow>
          if label = [] then prepare_loop extract build rest (features, labels, skipped + 1)
          else (case build row of
                  Inl e \<Rightarrow> Inl e
                | Inr feat \<Rightarrow>
                    prepare_loop extract build rest (features @ [feat], labels @ [label], skipped)))"

definition prepare_training_data ::
  "('row \<Rightarrow> py_error + string option) \<Rightarrow> ('row \<Rightarrow> py_error + json list) \<Rightarrow> 'row list
     \<Rightarrow> py_error + (json list list \<times> nat list \<times> string list)" where
  "prepare_training_data extract build df =
     (case prepare_loop extract build df ([], [], 0) of
        Inl e \<Rightarrow> Inl e
      | Inr (features, labels, skipped) \<Rightarrow>
          (case fit_transform labels of (y, le) \<Rightarrow> Inr (features, y, le)))"

subsection \<open>Metadata writer\<close>

text \<open>\<open>str(idx)\<close> for a non-negative index: its decimal digits.\<close>

definition digit_char :: "nat \<Rightarrow> char" where
  "digit_char d = ''0123456789'' ! d"

function str_nat :: "nat \<Rightarrow> string" where
  "str_nat n = (if n < 10 then [digit_char n] else str_nat (n div 10) @ [digit_char (n mod 10)])"
  by pat_completeness auto
termination
  by (relation "measure id") auto

declare str_nat.simps [simp del]

text \<open>
  \<open>save_metadata\<close> asserts the feature count and builds the document it then dumps. The
  dict comprehension over \<open>enumerate(le.classes_)\<close> is the list of its key-value pairs in
  order; the region details are those of the classes that the catalog knows.
\<close>

record region_detail =
  regionId :: string
  regionName :: string
  countryCode :: string
  latitude :: real
  longitude :: real

record metadata =
  featureCount :: nat
  featureNames :: "string list"
  classIndexToRegionId :: "(string \<times> string) list"
  regions :: "region_detail list"

definition feature_names :: "string list" where
  "feature_names =
     [''correlation_average_deviation'', ''correlation_pattern_similarity'',
      ''correlation_matching_asns'', ''correlation_has_history'', ''timezone_offset_hours'',
      ''is_vpn_or_proxy'', ''suspicion_score'', ''hour_of_day'', ''weekday'', ''locale_score'']"

definition region_details :: "string list \<Rightarrow> region_detail list" where
  "region_details classes =
     concat (map (\<lambda>region_id.
        case map_of REGION_DEFINITIONS region_id of
          None \<Rightarrow> []
        | Some m \<Rightarrow> [\<lparr>regionId = region_id, regionName = name m, countryCode = country m,
                       latitude = lat m, longitude = lon m\<rparr>]) classes)"

definition save_metadata :: "string list \<Rightarrow> nat \<Rightarrow> py_error + metadata" where
  "save_metadata classes feature_count =
     (if length feature_names \<noteq> feature_count then Inl AssertionError
      else Inr \<lparr>featureCount = feature_count,
                featureNames = feature_names,
                classIndexToRegionId = map (\<lambda>(idx, region). (str_nat idx, region)) (enumerate 0 classes),
                regions = region_details classes\<rparr>)"

subsection \<open>Pipeline driver\<close>

text \<open>
  \<open>run\<close>, from the loaded frame on. Training and the ONNX conversion belong to LightGBM
  and onnxmltools: they are the parameters \<open>train\<close> and \<open>export_onnx\<close>, which may raise.
  The second component of the result is the trace of what was performed: a training call,
  an export call, a metadata document written. \<open>X.shape[1]\<close> is the length of the first
  row.
\<close>

datatype event = Train | ExportOnnx | WriteMetadata metadata

definition run ::
  "(json list list \<Rightarrow> nat list \<Rightarrow> real \<Rightarrow> nat \<Rightarrow> py_error + 'm) \<Rightarrow> ('m \<Rightarrow> nat \<Rightarrow> py_error + unit)
     \<Rightarrow> ('row \<Rightarrow> py_error + string option) \<Rightarrow> ('row \<Rightarrow> py_error + json list) \<Rightarrow> 'row list
     \<Rightarrow> real \<Rightarrow> nat \<Rightarrow> (py_error + bool) \<times> event list" where
  "run train export_onnx extract build df test_size num_rounds =
     (case prepare_training_data extract build df of
        Inl e \<Rightarrow> (Inl e, [])
      | Inr (X, y, le) \<Rightarrow>
          if length X < 50 then (Inr False, [])
          else
            (case train X y test_size num_rounds of
               Inl e \<Rightarrow> (Inl e, [Train])
             | Inr model \<Rightarrow>
                 (case X of
                    [] \<Rightarrow> (Inl IndexError, [Train])
                  | x # _ \<Rightarrow>
                      (case export_onnx model (length x) of
                         Inl e \<Rightarrow> (Inl e, [Train, ExportOnnx])
                       | Inr _ \<Rightarrow>
                           (case save_metadata le (length x) of
                              Inl e \<Rightarrow> (Inl e, [Train, ExportOnnx])
                            | Inr md \<Rightarrow> (Inr True, [Train, ExportOnnx, WriteMetadata md]))))))"

subsection \<open>Vocabulary of the properties\<close>

text \<open>The record without the key \<open>k\<close>: the same record with that signal absent.\<close>

definition del_key :: "string \<Rightarrow> pydict \<Rightarrow> pydict" where
  "del_key k d = filter (\<lambda>kv. fst kv \<noteq> k) d"

fun is_str :: "json \<Rightarrow> bool" where
  "is_str (JStr s) = True"
| "is_str _ = False"

definition is_number :: "json \<Rightarrow> bool" where
  "is_number v = (num_of v \<noteq> None)"

text \<open>A coordinate that is a number of magnitude at most \<open>1e150\<close>: far beyond any
  latitude or longitude, and small enough for its squared offsets not to overflow.\<close>

definition coord_ok :: "json \<Rightarrow> bool" where
  "coord_ok v = (case num_of v of None \<Rightarrow> False | Some x \<Rightarrow> \<bar>x\<bar> \<le> 10 ^ 150)"

text \<open>The signals the extractor reads have the types it expects: coordinates that are both
  truthy are such numbers; otherwise a truthy city field is a string.\<close>

definition well_typed_signals :: "pydict \<Rightarrow> bool" where
  "well_typed_signals row =
     (if truthy (py_get row ''latitude'' JNull) \<and> truthy (py_get row ''longitude'' JNull)
      then coord_ok (py_get row ''latitude'' JNull) \<and> coord_ok (py_get row ''longitude'' JNull)
      else (truthy (py_get row ''geoip_city'' JNull) \<longrightarrow> is_str (py_get row ''geoip_city'' JNull))
         \<and> (truthy (py_get row ''asn_inferred_city'' JNull)
              \<longrightarrow> is_str (py_get row ''asn_inferred_city'' JNull)))"

text \<open>
  A signal that the extractor consults has the wrong type: both coordinates are truthy and
  one of them is not a number; or, the coordinates not being both truthy, the geo-IP city is
  truthy and not a string; or the geo-IP city is falsy or a string that matches no region,
  and the ASN-inferred city is truthy and not a string.
\<close>

definition consulted_ill_typed :: "pydict \<Rightarrow> bool" where
  "consulted_ill_typed row =
     (if truthy (py_get row ''latitude'' JNull) \<and> truthy (py_get row ''longitude'' JNull)
      then \<not> is_number (py_get row ''latitude'' JNull) \<or> \<not> is_number (py_get row ''longitude'' JNull)
      else if truthy (py_get row ''geoip_city'' JNull)
      then (case py_get row ''geoip_city'' JNull of
              JStr city \<Rightarrow>
                city_loop (lower city) REGION_DEFINITIONS = None
                \<and> truthy (py_get row ''asn_inferred_city'' JNull)
                \<and> \<not> is_str (py_get row ''asn_inferred_city'' JNull)
            | _ \<Rightarrow> True)
      else truthy (py_get row ''asn_inferred_city'' JNull)
           \<and> \<not> is_str (py_get row ''asn_inferred_city'' JNull))"

text \<open>A result of the extractor: no label, or the identifier of a catalog region.\<close>

definition is_label :: "string option \<Rightarrow> bool" where
  "is_label r =
     (case r of None \<Rightarrow> True | Some region_id \<Rightarrow> region_id \<in> set (map fst REGION_DEFINITIONS))"

text \<open>A stand-in for the pandas parser in concrete evaluations: \<open>'now'\<close> is the clock
  reading, one ISO string (1 January 2024, a Monday, at noon) is that instant, and
  everything else is rejected.\<close>

definition sample_to_datetime :: "tstamp \<Rightarrow> json \<Rightarrow> py_error + tstamp" where
  "sample_to_datetime now v =
     (if v = JStr ''now'' then Inr now
      else if v = JStr ''2024-01-01T12:00:00Z'' then Inr \<lparr>hour = 12, weekday = 0\<rparr>
      else Inl ValueError)"

text \<open>What pandas guarantees of a timestamp: \<open>hour\<close> is below 24 and \<open>weekday()\<close> below 7.\<close>

definition valid_clock :: "(tstamp \<Rightarrow> json \<Rightarrow> py_error + tstamp) \<Rightarrow> tstamp \<Rightarrow> bool" where
  "valid_clock to_datetime now =
     (hour now < 24 \<and> weekday now < 7
      \<and> (\<forall>v t. to_datetime now v = Inr t \<longrightarrow> hour t < 24 \<and> weekday t < 7))"

text \<open>A value that the parser parses without reading the clock.\<close>

definition parses_without_clock :: "(tstamp \<Rightarrow> json \<Rightarrow> py_error + tstamp) \<Rightarrow> json \<Rightarrow> bool" where
  "parses_without_clock to_datetime v = (\<forall>now now'. to_datetime now v = to_datetime now' v)"

text \<open>A feature value is a number between \<open>lo\<close> and \<open>hi\<close>.\<close>

definition in_range :: "real \<Rightarrow> real \<Rightarrow> json \<Rightarrow> bool" where
  "in_range lo hi v = (case num_of v of None \<Rightarrow> False | Some r \<Rightarrow> lo \<le> r \<and> r \<le> hi)"

text \<open>The correlation sub-object of a record (empty when the field is absent or not a dict).\<close>

definition corr_dict :: "pydict \<Rightarrow> pydict" where
  "corr_dict row = (case py_get row ''asn_correlation'' (JObj []) of JObj c \<Rightarrow> c | _ \<Rightarrow> [])"

text \<open>A row that contributes a sample: the extractor returns a non-empty label for it.\<close>

definition has_label :: "('row \<Rightarrow> py_error + string option) \<Rightarrow> 'row \<Rightarrow> bool" where
  "has_label extract row =
     (case extract row of Inr (Some label) \<Rightarrow> label \<noteq> [] | _ \<Rightarrow> False)"


section \<open>Properties of the label extractor\<close>

subsection \<open>Auxiliary facts\<close>

lemma map_of_del_key: "map_of (del_key k d) k' = (if k' = k then None else map_of d k')"
  by (induction d) (auto simp: del_key_def)

lemma py_get_del_key: "py_get (del_key k d) k' dflt = (if k' = k then dflt else py_get d k' dflt)"
  by (simp add: py_get_def map_of_del_key)

lemma sqrt_lt_100: "0 \<le> x \<Longrightarrow> (sqrt x < 100) = (x < 10000)"
proof -
  assume "0 \<le> x"
  have "sqrt x < sqrt 10000 \<longleftrightarrow> x < 10000" by (rule real_sqrt_less_iff)
  moreover have "sqrt 10000 = (100::real)" using real_sqrt_abs[of 100] by simp
  ultimately show ?thesis by simp
qed

lemma sqrt_gt_10: "(10 < sqrt x) = (100 < x)"
proof -
  have "sqrt 100 < sqrt x \<longleftrightarrow> 100 < x" by (rule real_sqrt_less_iff)
  moreover have "sqrt 100 = (10::real)" using real_sqrt_abs[of 10] by simp
  ultimately show ?thesis by simp
qed

lemma city_loop_in_catalog: "city_loop c rs = Some r \<Longrightarrow> r \<in> set (map fst rs)"
  by (induction c rs rule: city_loop.induct) (auto split: if_splits)

lemma find_region_by_city_str: "is_str v \<Longrightarrow> \<exists>r. find_region_by_city v = Inr r \<and> is_label r"
  by (cases v) (auto simp: is_label_def split: option.splits dest: city_loop_in_catalog)

lemma catalog_bounded:
  "\<forall>(region_id, m) \<in> set REGION_DEFINITIONS. \<bar>lat m\<bar> \<le> 180 \<and> \<bar>lon m\<bar> \<le> 180"
  by (simp add: REGION_DEFINITIONS_def)

lemma square_in_range:
  fixes x c :: real
  assumes "\<bar>x\<bar> \<le> 10 ^ 150" and "\<bar>c\<bar> \<le> 180"
  shows "(x - c)\<^sup>2 \<le> (2 * 10 ^ 150)\<^sup>2"
proof -
  have "(180::real) \<le> 10 ^ 150" by simp
  with assms have "\<bar>x - c\<bar> \<le> 2 * 10 ^ 150" by linarith
  then have "\<bar>x - c\<bar>\<^sup>2 \<le> (2 * 10 ^ 150)\<^sup>2" by (intro power_mono) simp_all
  then show ?thesis by simp
qed

lemma small_no_overflow: "x < 10 ^ 6 \<Longrightarrow> (FLOAT_OVERFLOW \<le> x) = False"
  by (simp add: FLOAT_OVERFLOW_def)

lemma py_square_small: "x\<^sup>2 < 10 ^ 6 \<Longrightarrow> py_square x = Inr (x\<^sup>2)"
  by (simp add: py_square_def small_no_overflow)

lemma root_of_sum_small: "a + b < 10 ^ 6 \<Longrightarrow> root_of_sum a b = Some (sqrt (a + b))"
  by (simp add: root_of_sum_def small_no_overflow)

lemma two_squares_below_overflow: "2 * (2 * 10 ^ 150)\<^sup>2 < FLOAT_OVERFLOW"
  by (simp add: FLOAT_OVERFLOW_def)

lemma coord_ok_py_float:
  assumes "coord_ok v"
  obtains x where "py_float v = Inr x" "\<bar>x\<bar> \<le> 10 ^ 150"
proof -
  have b: "(10::real) ^ 150 < FLOAT_OVERFLOW"
    by (simp add: FLOAT_OVERFLOW_def)
  from assms obtain x where x: "num_of v = Some x" "\<bar>x\<bar> \<le> 10 ^ 150"
    by (auto simp: coord_ok_def split: option.splits)
  with b have "py_float v = Inr x"
    by (cases v) auto
  with x(2) that show ?thesis by blast
qed

lemma distance_to_total:
  assumes "coord_ok la" "coord_ok lo" "\<bar>lat m\<bar> \<le> 180" "\<bar>lon m\<bar> \<le> 180"
  shows "\<exists>d. distance_to la lo m = Inr d"
proof -
  from assms(1) obtain x where x: "py_float la = Inr x" "\<bar>x\<bar> \<le> 10 ^ 150"
    by (rule coord_ok_py_float)
  from assms(2) obtain y where y: "py_float lo = Inr y" "\<bar>y\<bar> \<le> 10 ^ 150"
    by (rule coord_ok_py_float)
  from square_in_range [OF x(2) assms(3)] two_squares_below_overflow
  have "\<not> FLOAT_OVERFLOW \<le> (x - lat m)\<^sup>2" by simp
  moreover from square_in_range [OF y(2) assms(4)] two_squares_below_overflow
  have "\<not> FLOAT_OVERFLOW \<le> (y - lon m)\<^sup>2" by simp
  ultimately show ?thesis
    by (simp add: distance_to_def x(1) y(1) py_square_def)
qed

lemma nearest_loop_total:
  assumes "coord_ok la" "coord_ok lo"
  shows "\<forall>(region_id, m) \<in> set rs. \<bar>lat m\<bar> \<le> 180 \<and> \<bar>lon m\<bar> \<le> 180
    \<Longrightarrow> \<exists>res. nearest_loop la lo rs best = Inr res"
proof (induction rs arbitrary: best)
  case Nil
  show ?case by simp
next
  case (Cons p rest)
  obtain region_id m where p: "p = (region_id, m)"
    by (cases p)
  obtain best_region best_distance where best: "best = (best_region, best_distance)"
    by (cases best)
  from Cons.prems p have m: "\<bar>lat m\<bar> \<le> 180" "\<bar>lon m\<bar> \<le> 180"
    and rest: "\<forall>(region_id, m) \<in> set rest. \<bar>lat m\<bar> \<le> 180 \<and> \<bar>lon m\<bar> \<le> 180"
    by simp_all
  from distance_to_total [OF assms m] obtain d where d: "distance_to la lo m = Inr d"
    by blast
  from Cons.IH [OF rest] d show ?case
    by (simp add: p best)
qed

lemma nearest_loop_in_catalog:
  "nearest_loop la lo rs (br, bd) = Inr (r, d) \<Longrightarrow> r = br \<or> r \<in> Some ` set (map fst rs)"
  by (induction la lo rs "(br, bd)" arbitrary: br bd rule: nearest_loop.induct)
     (auto split: sum.splits if_splits)

lemma nearest_region_numeric:
  assumes "coord_ok la" "coord_ok lo"
  shows "\<exists>r. nearest_region_by_coords la lo = Inr r \<and> is_label r"
proof -
  from nearest_loop_total [OF assms catalog_bounded] obtain r d
    where rd: "nearest_loop la lo REGION_DEFINITIONS (None, None) = Inr (r, d)"
    by (metis surj_pair)
  from nearest_loop_in_catalog [OF rd] have "is_label r"
    by (force simp: is_label_def)
  with rd show ?thesis
    by (auto simp: nearest_region_by_coords_def is_label_def)
qed

lemma distance_to_non_number:
  "\<not> is_number la \<or> \<not> is_number lo \<Longrightarrow> \<exists>e. distance_to la lo m = Inl e"
proof -
  have n: "\<And>v. \<not> is_number v \<Longrightarrow> py_float v = Inl TypeError"
    subgoal for v by (cases v) (simp_all add: is_number_def)
    done
  assume "\<not> is_number la \<or> \<not> is_number lo"
  then show ?thesis
    by (auto simp: distance_to_def n split: sum.splits)
qed

lemma nearest_region_non_number:
  assumes "\<not> is_number la \<or> \<not> is_number lo"
  shows "\<exists>e. nearest_region_by_coords la lo = Inl e"
proof -
  obtain region_id m rest where c: "REGION_DEFINITIONS = (region_id, m) # rest"
    by (simp add: REGION_DEFINITIONS_def)
  from distance_to_non_number [OF assms] obtain e where "distance_to la lo m = Inl e"
    by blast
  then show ?thesis
    by (simp add: nearest_region_by_coords_def c)
qed

lemma asn_step_str:
  "(truthy (py_get row ''asn_inferred_city'' JNull) \<longrightarrow> is_str (py_get row ''asn_inferred_city'' JNull))
   \<Longrightarrow> \<exists>r. asn_step row = Inr r \<and> is_label r"
  using find_region_by_city_str[of "py_get row ''asn_inferred_city'' JNull"]
  by (auto simp: asn_step_def is_label_def)

lemma geoip_step_str:
  assumes "truthy (py_get row ''geoip_city'' JNull) \<longrightarrow> is_str (py_get row ''geoip_city'' JNull)"
    and "truthy (py_get row ''asn_inferred_city'' JNull) \<longrightarrow> is_str (py_get row ''asn_inferred_city'' JNull)"
  shows "\<exists>r. geoip_step row = Inr r \<and> is_label r"
  using find_region_by_city_str[of "py_get row ''geoip_city'' JNull"] asn_step_str[OF assms(2)] assms(1)
  by (auto simp: geoip_step_def)

lemma asn_step_del_key:
  "k \<noteq> ''asn_inferred_city'' \<Longrightarrow> asn_step (del_key k row) = asn_step row"
  by (simp add: asn_step_def py_get_del_key)

lemma geoip_step_del_key:
  "k \<noteq> ''geoip_city'' \<Longrightarrow> k \<noteq> ''asn_inferred_city''
   \<Longrightarrow> geoip_step (del_key k row) = geoip_step row"
  by (simp add: geoip_step_def py_get_del_key asn_step_del_key split: sum.splits)

lemma asn_step_empty:
  "map_of row ''asn_inferred_city'' = Some (JStr [])
   \<Longrightarrow> asn_step row = asn_step (del_key ''asn_inferred_city'' row)"
  by (simp add: asn_step_def py_get_del_key) (simp add: py_get_def)

lemma geoip_step_empty:
  "map_of row ''geoip_city'' = Some (JStr [])
   \<Longrightarrow> geoip_step row = geoip_step (del_key ''geoip_city'' row)"
  by (simp add: geoip_step_def py_get_del_key asn_step_del_key split: sum.splits)
     (simp add: py_get_def)

lemma geoip_step_asn_empty:
  "map_of row ''asn_inferred_city'' = Some (JStr [])
   \<Longrightarrow> geoip_step row = geoip_step (del_key ''asn_inferred_city'' row)"
  using asn_step_empty[of row] by (simp add: geoip_step_def py_get_del_key split: sum.splits)

lemma extract_label_no_coords:
  "\<not> truthy (py_get row ''latitude'' JNull) \<or> \<not> truthy (py_get row ''longitude'' JNull)
   \<Longrightarrow> extract_label row = geoip_step row"
  unfolding extract_label_def by auto

lemma extract_label_del_other:
  assumes "k \<noteq> ''latitude''" "k \<noteq> ''longitude''"
    and "geoip_step (del_key k row) = geoip_step row"
  shows "extract_label (del_key k row) = extract_label row"
proof -
  have "py_get (del_key k row) ''latitude'' JNull = py_get row ''latitude'' JNull"
    "py_get (del_key k row) ''longitude'' JNull = py_get row ''longitude'' JNull"
    using assms(1,2) by (simp_all only: py_get_del_key if_not_P not_sym)
  then show ?thesis
    unfolding extract_label_def by (simp only: assms(3))
qed


subsection \<open>Coordinates\<close>

text \<open>
  Claim C2. The nearest catalog region is to be accepted only within a straight-line distance
  of 10 degrees (the comment on the return statement says \<open>Max ~10\<degree>\<close>). The code compares
  the distance itself, already a square root, with 100. At latitude 10, longitude 10 the
  nearest region is \<open>eu-par\<close>, more than 10 degrees away, and it is returned.
\<close>

theorem coords_gate_accepts_beyond_10:
  "nearest_region_by_coords (JInt 10) (JInt 10) = Inr (Some ''eu-par'')
   \<and> (case map_of REGION_DEFINITIONS ''eu-par'' of
        None \<Rightarrow> False
      | Some m \<Rightarrow>
          (case distance_to (JInt 10) (JInt 10) m of
             Inl e \<Rightarrow> False
           | Inr None \<Rightarrow> False
           | Inr (Some d) \<Rightarrow> 10 < d))"
proof -
  have "nearest_region_by_coords (JInt 10) (JInt 10) = Inr (Some ''eu-par'')"
    by (simp add: nearest_region_by_coords_def REGION_DEFINITIONS_def distance_to_def
        py_square_small root_of_sum_small small_no_overflow power2_eq_square sqrt_lt_100)
  moreover have "map_of REGION_DEFINITIONS ''eu-par''
      = Some \<lparr>name = ''Paris Metro'', country = ''FR'', lat = 48.8566, lon = 2.3522\<rparr>"
    by (simp add: REGION_DEFINITIONS_def)
  moreover have "distance_to (JInt 10) (JInt 10)
      \<lparr>name = ''Paris Metro'', country = ''FR'', lat = 48.8566, lon = 2.3522\<rparr>
      = Inr (Some (sqrt ((10 - 48.8566)\<^sup>2 + (10 - 2.3522)\<^sup>2)))"
    by (simp add: distance_to_def py_square_small root_of_sum_small small_no_overflow power2_eq_square)
  moreover have "10 < sqrt ((10 - 48.8566)\<^sup>2 + (10 - 2.3522)\<^sup>2 :: real)"
    by (simp add: sqrt_gt_10 power2_eq_square)
  ultimately show ?thesis by simp
qed

text \<open>
  Claim C3. A record with both coordinates, farther than the threshold from every region, is
  to fall through to the city steps. In the code the coordinate branch returns whatever the
  nearest-region search gives: at latitude -80, longitude 30 with geo-IP city \<open>Tokyo\<close> the
  result is no label, although the city step on the same record finds \<open>ap-tok\<close>.
\<close>

theorem coords_no_fall_through:
  "extract_label [(''latitude'', JInt (- 80)), (''longitude'', JInt 30), (''geoip_city'', JStr ''Tokyo'')]
     = Inr None
   \<and> geoip_step [(''latitude'', JInt (- 80)), (''longitude'', JInt 30), (''geoip_city'', JStr ''Tokyo'')]
     = Inr (Some ''ap-tok'')"
proof -
  have "nearest_region_by_coords (JInt (- 80)) (JInt 30) = Inr None"
    by (simp add: nearest_region_by_coords_def REGION_DEFINITIONS_def distance_to_def
        py_square_small root_of_sum_small small_no_overflow power2_eq_square sqrt_lt_100)
  moreover have "find_region_by_city (JStr ''Tokyo'') = Inr (Some ''ap-tok'')"
    by (simp add: REGION_DEFINITIONS_def lower_def lower_char_def)
  ultimately show ?thesis
    by (simp add: extract_label_def geoip_step_def py_get_def)
qed

text \<open>
  Claim C10. When latitude or longitude is falsy (absent, null, 0, 0.0, an empty string),
  the extractor goes straight to the city steps: its result is that of the city steps, and
  it is the result on the record with both coordinates removed, on which the nearest-region
  search cannot be reached.
\<close>

theorem falsy_coords_absent:
  assumes "\<not> truthy (py_get row ''latitude'' JNull) \<or> \<not> truthy (py_get row ''longitude'' JNull)"
  shows "extract_label row = geoip_step row
     \<and> extract_label row = extract_label (del_key ''latitude'' (del_key ''longitude'' row))"
proof -
  let ?row' = "del_key ''latitude'' (del_key ''longitude'' row)"
  have a: "extract_label row = geoip_step row"
    using assms by (rule extract_label_no_coords)
  have "py_get ?row' ''latitude'' JNull = JNull"
    by (simp add: py_get_del_key)
  then have "\<not> truthy (py_get ?row' ''latitude'' JNull)"
    by simp
  then have b: "extract_label ?row' = geoip_step ?row'"
    by (intro extract_label_no_coords disjI1)
  have c: "geoip_step ?row' = geoip_step row"
    by (simp add: geoip_step_del_key)
  from a b c show ?thesis by simp
qed


theorem falsy_coords_absent_witness:
  "extract_label [(''latitude'', JFloat 0), (''longitude'', JStr ''east''), (''geoip_city'', JStr ''Berlin'')]
     = geoip_step [(''latitude'', JFloat 0), (''longitude'', JStr ''east''), (''geoip_city'', JStr ''Berlin'')]
   \<and> extract_label [(''latitude'', JFloat 0), (''longitude'', JStr ''east''), (''geoip_city'', JStr ''Berlin'')]
     = extract_label (del_key ''latitude'' (del_key ''longitude''
         [(''latitude'', JFloat 0), (''longitude'', JStr ''east''), (''geoip_city'', JStr ''Berlin'')]))"
proof -
  have h: "\<not> truthy (py_get [(''latitude'', JFloat 0), (''longitude'', JStr ''east''), (''geoip_city'', JStr ''Berlin'')]
         ''latitude'' JNull)
    \<or> \<not> truthy (py_get [(''latitude'', JFloat 0), (''longitude'', JStr ''east''), (''geoip_city'', JStr ''Berlin'')]
         ''longitude'' JNull)"
    by (simp add: py_get_def)
  from falsy_coords_absent [OF h] show ?thesis .
qed

subsection \<open>Exceptions\<close>

text \<open>
  Claim C4, as stated: the extractor never raises, whatever the record holds. It does: a
  geo-IP city that is the number 5 is truthy and has no \<open>lower\<close> method.
\<close>

theorem extract_label_raises_on_number_city:
  "extract_label [(''geoip_city'', JInt 5)] = Inl AttributeError"
  by (simp add: extract_label_def geoip_step_def py_get_def)

text \<open>
  Claim C4, amended. On a record whose signals have the expected types (coordinates that
  are both truthy are numbers of magnitude at most \<open>1e150\<close>; otherwise each truthy city
  field is a string) the extractor returns, and the result is no label or a region
  identifier of the catalog. On a record in which a signal that the extractor consults has
  the wrong type, it raises.
\<close>

theorem extract_label_well_typed:
  "(well_typed_signals row \<longrightarrow> (\<exists>r. extract_label row = Inr r \<and> is_label r))
   \<and> (consulted_ill_typed row \<longrightarrow> (\<exists>e. extract_label row = Inl e))"
proof (cases "truthy (py_get row ''latitude'' JNull) \<and> truthy (py_get row ''longitude'' JNull)")
  case True
  have "\<exists>r. extract_label row = Inr r \<and> is_label r" if "well_typed_signals row"
  proof -
    from that True
    have "coord_ok (py_get row ''latitude'' JNull)" "coord_ok (py_get row ''longitude'' JNull)"
      by (simp_all add: well_typed_signals_def)
    from nearest_region_numeric [OF this] True show ?thesis
      by (simp add: extract_label_def)
  qed
  moreover have "\<exists>e. extract_label row = Inl e" if "consulted_ill_typed row"
  proof -
    from that True
    have "\<not> is_number (py_get row ''latitude'' JNull) \<or> \<not> is_number (py_get row ''longitude'' JNull)"
      by (simp add: consulted_ill_typed_def)
    from nearest_region_non_number [OF this] True show ?thesis
      by (simp add: extract_label_def)
  qed
  ultimately show ?thesis by blast
next
  case False
  then have el: "extract_label row = geoip_step row"
    by (auto simp: extract_label_def)
  have "\<exists>r. extract_label row = Inr r \<and> is_label r" if "well_typed_signals row"
  proof -
    from that False
    have "truthy (py_get row ''geoip_city'' JNull) \<longrightarrow> is_str (py_get row ''geoip_city'' JNull)"
      "truthy (py_get row ''asn_inferred_city'' JNull)
         \<longrightarrow> is_str (py_get row ''asn_inferred_city'' JNull)"
      by (simp_all add: well_typed_signals_def)
    from geoip_step_str [OF this] el show ?thesis
      by simp
  qed
  moreover have "\<exists>e. extract_label row = Inl e" if "consulted_ill_typed row"
  proof -
    have asn: "\<exists>e. asn_step row = Inl e"
      if "truthy (py_get row ''asn_inferred_city'' JNull)"
        "\<not> is_str (py_get row ''asn_inferred_city'' JNull)"
      using that by (cases "py_get row ''asn_inferred_city'' JNull") (simp_all add: asn_step_def)
    show ?thesis
    proof (cases "truthy (py_get row ''geoip_city'' JNull)")
      case geo: True
      show ?thesis
      proof (cases "py_get row ''geoip_city'' JNull")
        case (JStr city)
        with \<open>consulted_ill_typed row\<close> False geo
        have "city_loop (lower city) REGION_DEFINITIONS = None"
          "truthy (py_get row ''asn_inferred_city'' JNull)"
          "\<not> is_str (py_get row ''asn_inferred_city'' JNull)"
          by (simp_all add: consulted_ill_typed_def)
        with asn JStr geo el show ?thesis
          by (simp add: geoip_step_def)
      qed (use geo el in \<open>simp_all add: geoip_step_def\<close>)
    next
      case geo: False
      with \<open>consulted_ill_typed row\<close> False
      have "truthy (py_get row ''asn_inferred_city'' JNull)"
        "\<not> is_str (py_get row ''asn_inferred_city'' JNull)"
        by (simp_all add: consulted_ill_typed_def)
      with asn geo el show ?thesis
        by (simp add: geoip_step_def)
    qed
  qed
  ultimately show ?thesis by blast
qed

theorem extract_label_well_typed_witness:
  "(\<exists>r. extract_label [(''geoip_city'', JStr ''Tokyo'')] = Inr r \<and> is_label r)
   \<and> (\<exists>r. extract_label [(''latitude'', JFloat 52.52), (''longitude'', JFloat 13.40)] = Inr r
          \<and> is_label r)
   \<and> (\<exists>e. extract_label [(''geoip_city'', JStr ''Atlantis''), (''asn_inferred_city'', JInt 5)]
          = Inl e)"
proof -
  have a: "well_typed_signals [(''geoip_city'', JStr ''Tokyo'')]"
    by (simp add: well_typed_signals_def py_get_def)
  have b: "well_typed_signals [(''latitude'', JFloat 52.52), (''longitude'', JFloat 13.40)]"
    by (simp add: well_typed_signals_def py_get_def coord_ok_def)
  have c: "consulted_ill_typed [(''geoip_city'', JStr ''Atlantis''), (''asn_inferred_city'', JInt 5)]"
    by (simp add: consulted_ill_typed_def py_get_def REGION_DEFINITIONS_def lower_def lower_char_def)
  from a b c
    extract_label_well_typed [of "[(''geoip_city'', JStr ''Tokyo'')]"]
    extract_label_well_typed [of "[(''latitude'', JFloat 52.52), (''longitude'', JFloat 13.40)]"]
    extract_label_well_typed
      [of "[(''geoip_city'', JStr ''Atlantis''), (''asn_inferred_city'', JInt 5)]"]
  show ?thesis by blast
qed

subsection \<open>City strings\<close>

text \<open>
  Claim C5, as stated: an empty or whitespace-only city string behaves as an absent one.
  A single space does not: it is truthy and occurs in the name of the first region.
\<close>

theorem whitespace_city_matches:
  "extract_label [(''geoip_city'', JStr '' '')] = Inr (Some ''eu-ams'')
   \<and> extract_label [] = Inr None"
  by (simp add: extract_label_def geoip_step_def asn_step_def py_get_def REGION_DEFINITIONS_def
        lower_def lower_char_def)

text \<open>
  Claim C5, amended. A geo-IP city or ASN-inferred city that is the empty string behaves as
  an absent one: the extractor gives the same result as on the record without that field.
  (A whitespace-only string is matched like any other string.)
\<close>

theorem empty_city_absent:
  assumes "k = ''geoip_city'' \<or> k = ''asn_inferred_city''" and "map_of row k = Some (JStr [])"
  shows "extract_label row = extract_label (del_key k row)"
proof -
  from assms have g: "geoip_step (del_key k row) = geoip_step row"
    using geoip_step_empty[of row] geoip_step_asn_empty[of row] by metis
  from assms(1) have "k \<noteq> ''latitude''" "k \<noteq> ''longitude''"
    by auto
  from extract_label_del_other[OF this g] show ?thesis by simp
qed


theorem empty_city_absent_witness:
  "extract_label [(''geoip_city'', JStr []), (''asn_inferred_city'', JStr ''Berlin'')]
     = extract_label (del_key ''geoip_city''
         [(''geoip_city'', JStr []), (''asn_inferred_city'', JStr ''Berlin'')])"
proof -
  have h: "map_of [(''geoip_city'', JStr []), (''asn_inferred_city'', JStr ''Berlin'')] ''geoip_city''
       = Some (JStr [])"
    by simp
  from empty_city_absent [OF disjI1 h] show ?thesis
    by simp
qed


section \<open>Properties of the feature builder\<close>

subsection \<open>Auxiliary facts\<close>

lemmas fb_defs = build_features_def correlation_features_def timezone_feature_def vpn_features_def
  time_features_def row_timestamp_def locale_feature_def normalize_rtt_def py_num_def py_get_def

lemma in_range_JFloat [simp]: "in_range lo hi (JFloat r) = (lo \<le> r \<and> r \<le> hi)"
  by (simp add: in_range_def)

lemma correlation_features_shape:
  assumes "correlation_features row = Inr c"
  shows "length c = 4 \<and> in_range 0 1 (c ! 0) \<and> in_range 0 1 (c ! 3)
    \<and> (in_range 0 1 (py_get (corr_dict row) ''pattern_similarity'' (JInt 0)) \<longrightarrow> in_range 0 1 (c ! 1))
    \<and> (in_range 0 50 (py_get (corr_dict row) ''matching_asns'' (JInt 0)) \<longrightarrow> in_range 0 1 (c ! 2))"
proof (cases "truthy (py_get row ''asn_correlation'' (JObj []))")
  case False
  with assms have "c = [JFloat 0, JFloat 0, JFloat 0, JFloat 0]"
    by (simp add: correlation_features_def)
  then show ?thesis by simp
next
  case True
  with assms obtain d where d: "py_get row ''asn_correlation'' (JObj []) = JObj d"
    by (cases "py_get row ''asn_correlation'' (JObj [])") (simp_all add: correlation_features_def)
  from assms True d obtain f0 asns f3 where
    f0: "normalize_rtt (py_get d ''average_deviation'' (JInt 0)) = Inr f0" and
    asns: "py_num (py_get d ''matching_asns'' (JInt 0)) = Inr asns" and
    c: "c = [JFloat f0, py_get d ''pattern_similarity'' (JInt 0), JFloat (asns / 50), JFloat f3]" and
    f3: "f3 = 0 \<or> f3 = 1"
    by (auto simp: correlation_features_def split: sum.splits)
  from f0 have "0 \<le> f0 \<and> f0 \<le> 1"
    by (auto simp: normalize_rtt_def split: sum.splits)
  moreover from f3 have "0 \<le> f3 \<and> f3 \<le> 1"
    by auto
  moreover from asns have "in_range 0 50 (py_get d ''matching_asns'' (JInt 0)) \<longrightarrow> 0 \<le> asns / 50 \<and> asns / 50 \<le> 1"
    by (auto simp: py_num_def in_range_def split: option.splits)
  moreover have "corr_dict row = d"
    by (simp add: corr_dict_def d)
  ultimately show ?thesis
    by (simp add: c)
qed

lemma timezone_feature_range: "timezone_feature row = Inr tz \<Longrightarrow> - 1 \<le> tz \<and> tz \<le> 1"
  by (auto simp: timezone_feature_def Let_def split: sum.splits if_splits)

lemma suspicion_score_range: "suspicion_score v = Inr s \<Longrightarrow> 0 \<le> s \<and> s \<le> 1"
  by (cases v) (auto split: if_splits)

lemma suspicion_score_value:
  "suspicion_score level = Inr s
   \<Longrightarrow> s = (if level = JStr ''high'' then 1 else if level = JStr ''medium'' then 0.5
            else if level = JStr ''low'' then 0.25 else 0)"
  by (cases level) (auto split: if_splits)

lemma vpn_features_shape:
  "vpn_features row = Inr v \<Longrightarrow> length v = 2 \<and> in_range 0 1 (v ! 0) \<and> in_range 0 1 (v ! 1)"
  by (auto simp: vpn_features_def Let_def split: json.splits sum.splits dest: suspicion_score_range)

lemma time_features_shape:
  assumes "time_features to_datetime now row = Inr tm" and "valid_clock to_datetime now"
  shows "length tm = 2 \<and> in_range 0 1 (tm ! 0) \<and> in_range 0 1 (tm ! 1)"
proof -
  from assms(1) obtain t where t: "row_timestamp to_datetime now row = Inr t"
    and tm: "tm = [JFloat (real (hour t) / 24), JFloat (real (weekday t) / 7)]"
    by (auto simp: time_features_def split: sum.splits)
  from t assms(2) have "hour t < 24 \<and> weekday t < 7"
    by (auto simp: row_timestamp_def valid_clock_def split: option.splits)
  then show ?thesis by (simp add: tm)
qed

lemma time_features_length: "time_features to_datetime now row = Inr tm \<Longrightarrow> length tm = 2"
  by (auto simp: time_features_def split: sum.splits)

lemma time_features_no_timestamp:
  "map_of row ''timestamp'' = None
   \<Longrightarrow> time_features to_datetime now row
       = Inr [JFloat (real (hour now) / 24), JFloat (real (weekday now) / 7)]"
  by (simp add: time_features_def row_timestamp_def)

lemma locale_feature_range: "locale_feature row = Inr l \<Longrightarrow> 0 \<le> l \<and> l \<le> 1"
  by (auto simp: locale_feature_def Let_def split: sum.splits if_splits)

lemma build_features_parts:
  assumes "build_features to_datetime now row = Inr fs"
  obtains c tz v tm l where
    "correlation_features row = Inr c" "timezone_feature row = Inr tz" "vpn_features row = Inr v"
    "time_features to_datetime now row = Inr tm" "locale_feature row = Inr l"
    "fs = c @ [JFloat tz] @ v @ tm @ [JFloat l]"
  using assms by (auto simp: build_features_def split: sum.splits)


lemma list4: "length xs = 4 \<Longrightarrow> \<exists>a b c d. xs = [a, b, c, d]"
  by (auto simp: length_Suc_conv numeral_eq_Suc)

lemma list2: "length xs = 2 \<Longrightarrow> \<exists>a b. xs = [a, b]"
  by (auto simp: length_Suc_conv numeral_eq_Suc)

lemma vpn_features_score:
  assumes "vpn_features row = Inr v"
  shows "(map_of row ''vpn_detection'' = None \<and> v ! 1 = JFloat 0.25)
       \<or> (\<exists>vpn. map_of row ''vpn_detection'' = Some (JObj vpn)
            \<and> (case map_of vpn ''suspicion_level'' of
                 None \<Rightarrow> v ! 1 = JFloat 0.25
               | Some level \<Rightarrow>
                   v ! 1 = JFloat (if level = JStr ''high'' then 1 else if level = JStr ''medium'' then 0.5
                                   else if level = JStr ''low'' then 0.25 else 0)))"
proof (cases "map_of row ''vpn_detection''")
  case None
  with assms show ?thesis
    by (auto simp: vpn_features_def py_get_def)
next
  case (Some x)
  with assms obtain vpn where x: "x = JObj vpn"
    by (cases x) (auto simp: vpn_features_def py_get_def)
  show ?thesis
  proof (cases "map_of vpn ''suspicion_level''")
    case None
    with assms Some x show ?thesis
      by (auto simp: vpn_features_def py_get_def)
  next
    case (Some level)
    with assms \<open>map_of row ''vpn_detection'' = Some x\<close> x
    obtain s where s: "suspicion_score level = Inr s" and v: "v ! 1 = JFloat s"
      by (auto simp: vpn_features_def py_get_def Let_def split: sum.splits)
    from suspicion_score_value [OF s] v Some \<open>map_of row ''vpn_detection'' = Some x\<close> x
    show ?thesis by simp
  qed
qed

lemma build_features_shape:
  assumes "build_features to_datetime now row = Inr fs"
  obtains c0 c1 c2 c3 tz v0 v1 t0 t1 l where
    "correlation_features row = Inr [c0, c1, c2, c3]" "timezone_feature row = Inr tz"
    "vpn_features row = Inr [v0, v1]" "time_features to_datetime now row = Inr [t0, t1]"
    "locale_feature row = Inr l"
    "fs = [c0, c1, c2, c3, JFloat tz, v0, v1, t0, t1, JFloat l]"
proof -
  from assms obtain c tz v tm l where parts:
    "correlation_features row = Inr c" "timezone_feature row = Inr tz" "vpn_features row = Inr v"
    "time_features to_datetime now row = Inr tm" "locale_feature row = Inr l"
    and fs: "fs = c @ [JFloat tz] @ v @ tm @ [JFloat l]"
    by (rule build_features_parts)
  from correlation_features_shape [OF parts(1)] obtain c0 c1 c2 c3 where c: "c = [c0, c1, c2, c3]"
    using list4 by blast
  from vpn_features_shape [OF parts(3)] obtain v0 v1 where v: "v = [v0, v1]"
    using list2 by blast
  from time_features_length [OF parts(4)] obtain t0 t1 where tm: "tm = [t0, t1]"
    using list2 by blast
  show ?thesis
    using parts fs that unfolding c v tm by simp
qed

lemma build_features_nth6:
  assumes "build_features to_datetime now row = Inr fs" and "vpn_features row = Inr v"
  shows "fs ! 6 = v ! 1"
proof -
  from assms(1) obtain c tz v' tm l where parts:
    "correlation_features row = Inr c" "vpn_features row = Inr v'"
    and fs: "fs = c @ [JFloat tz] @ v' @ tm @ [JFloat l]"
    by (rule build_features_parts)
  from correlation_features_shape [OF parts(1)] obtain c0 c1 c2 c3 where c: "c = [c0, c1, c2, c3]"
    using list4 by blast
  from vpn_features_shape [OF parts(2)] obtain v0 v1 where v: "v' = [v0, v1]"
    using list2 by blast
  from assms(2) parts(2) have "v' = v" by simp
  with fs c v show ?thesis by auto
qed


subsection \<open>Suspicion score\<close>

text \<open>
  Claim C1, as stated: with no \<open>vpn_detection\<close> sub-object the suspicion score, feature 6, is
  0.0. The default of \<open>row.get('vpn_detection', {})\<close> is an empty dict, whose missing
  \<open>suspicion_level\<close> defaults to \<open>'low'\<close>: on the empty record feature 6 is 0.25.
\<close>

theorem suspicion_absent_vpn_is_low:
  "build_features sample_to_datetime \<lparr>hour = 0, weekday = 0\<rparr> []
   = Inr [JFloat 0, JFloat 0, JFloat 0, JFloat 0, JFloat 0, JFloat 0, JFloat 0.25, JFloat 0, JFloat 0, JFloat 0]
   \<and> JFloat 0.25 \<noteq> JFloat 0"
  by (simp add: fb_defs)


text \<open>
  Claim C1, amended. Whenever the builder returns, feature 6 is 0.25 both for a record
  without \<open>vpn_detection\<close> and for one whose \<open>vpn_detection\<close> object has no
  \<open>suspicion_level\<close>; for a \<open>suspicion_level\<close> that is present it is 1.0 on \<open>'high'\<close>, 0.5 on
  \<open>'medium'\<close>, 0.25 on \<open>'low'\<close> and 0.0 on every other value; and feature 6 is 0.0 only if
  the \<open>vpn_detection\<close> object is present and carries a \<open>suspicion_level\<close> that is none of
  \<open>'high'\<close>, \<open>'medium'\<close>, \<open>'low'\<close>.
\<close>

theorem suspicion_default:
  assumes "build_features to_datetime now row = Inr fs"
  shows "(map_of row ''vpn_detection'' = None \<longrightarrow> fs ! 6 = JFloat 0.25)
    \<and> (\<forall>vpn. map_of row ''vpn_detection'' = Some (JObj vpn) \<and> map_of vpn ''suspicion_level'' = None
          \<longrightarrow> fs ! 6 = JFloat 0.25)
    \<and> (\<forall>vpn level. map_of row ''vpn_detection'' = Some (JObj vpn)
            \<and> map_of vpn ''suspicion_level'' = Some level
          \<longrightarrow> fs ! 6 = JFloat (if level = JStr ''high'' then 1 else if level = JStr ''medium'' then 0.5
                               else if level = JStr ''low'' then 0.25 else 0))
    \<and> (fs ! 6 = JFloat 0
          \<longrightarrow> (\<exists>vpn level. map_of row ''vpn_detection'' = Some (JObj vpn)
                 \<and> map_of vpn ''suspicion_level'' = Some level
                 \<and> level \<noteq> JStr ''high'' \<and> level \<noteq> JStr ''medium'' \<and> level \<noteq> JStr ''low''))"
proof -
  from assms obtain v where v: "vpn_features row = Inr v"
    by (auto elim: build_features_parts)
  note n6 = build_features_nth6 [OF assms v]
  from vpn_features_score [OF v] show ?thesis
  proof
    assume "map_of row ''vpn_detection'' = None \<and> v ! 1 = JFloat 0.25"
    with n6 show ?thesis by simp
  next
    assume "\<exists>vpn. map_of row ''vpn_detection'' = Some (JObj vpn)
            \<and> (case map_of vpn ''suspicion_level'' of
                 None \<Rightarrow> v ! 1 = JFloat 0.25
               | Some level \<Rightarrow>
                   v ! 1 = JFloat (if level = JStr ''high'' then 1 else if level = JStr ''medium'' then 0.5
                                   else if level = JStr ''low'' then 0.25 else 0))"
    then obtain vpn where vpn: "map_of row ''vpn_detection'' = Some (JObj vpn)"
      and sc: "case map_of vpn ''suspicion_level'' of
                 None \<Rightarrow> v ! 1 = JFloat 0.25
               | Some level \<Rightarrow>
                   v ! 1 = JFloat (if level = JStr ''high'' then 1 else if level = JStr ''medium'' then 0.5
                                   else if level = JStr ''low'' then 0.25 else 0)"
      by blast
    show ?thesis
    proof (cases "map_of vpn ''suspicion_level''")
      case None
      with sc n6 vpn show ?thesis by simp
    next
      case (Some level)
      with sc n6 vpn show ?thesis by (simp split: if_splits)
    qed
  qed
qed

theorem suspicion_default_witness:
  "build_features sample_to_datetime \<lparr>hour = 9, weekday = 2\<rparr> [(''vpn_detection'', JObj [(''is_likely_vpn'', JBool True)])]
     = Inr [JFloat 0, JFloat 0, JFloat 0, JFloat 0, JFloat 0, JFloat 1, JFloat 0.25,
            JFloat (9 / 24), JFloat (2 / 7), JFloat 0]
   \<and> [JFloat 0, JFloat 0, JFloat 0, JFloat 0, JFloat 0, JFloat 1, JFloat 0.25,
            JFloat (9 / 24), JFloat (2 / 7), JFloat 0] ! 6 = JFloat 0.25
   \<and> build_features sample_to_datetime \<lparr>hour = 9, weekday = 2\<rparr>
       [(''vpn_detection'', JObj [(''suspicion_level'', JStr ''unknown'')])]
     = Inr [JFloat 0, JFloat 0, JFloat 0, JFloat 0, JFloat 0, JFloat 0, JFloat 0,
            JFloat (9 / 24), JFloat (2 / 7), JFloat 0]
   \<and> [JFloat 0, JFloat 0, JFloat 0, JFloat 0, JFloat 0, JFloat 0, JFloat 0,
            JFloat (9 / 24), JFloat (2 / 7), JFloat 0] ! 6 = JFloat 0"
proof -
  let ?row = "[(''vpn_detection'', JObj [(''is_likely_vpn'', JBool True)])]"
  let ?fs = "[JFloat 0, JFloat 0, JFloat 0, JFloat 0, JFloat 0, JFloat 1, JFloat 0.25,
            JFloat (9 / 24), JFloat (2 / 7), JFloat 0]"
  let ?row' = "[(''vpn_detection'', JObj [(''suspicion_level'', JStr ''unknown'')])]"
  let ?fs' = "[JFloat 0, JFloat 0, JFloat 0, JFloat 0, JFloat 0, JFloat 0, JFloat 0,
            JFloat (9 / 24), JFloat (2 / 7), JFloat 0]"
  have b: "build_features sample_to_datetime \<lparr>hour = 9, weekday = 2\<rparr> ?row = Inr ?fs"
    by (simp add: fb_defs)
  have "map_of ?row ''vpn_detection'' = Some (JObj [(''is_likely_vpn'', JBool True)])
      \<and> map_of [(''is_likely_vpn'', JBool True)] ''suspicion_level'' = None"
    by simp
  with suspicion_default [OF b] have r: "?fs ! 6 = JFloat 0.25"
    by blast
  have b': "build_features sample_to_datetime \<lparr>hour = 9, weekday = 2\<rparr> ?row' = Inr ?fs'"
    by (simp add: fb_defs)
  have "map_of ?row' ''vpn_detection'' = Some (JObj [(''suspicion_level'', JStr ''unknown'')])
      \<and> map_of [(''suspicion_level'', JStr ''unknown'')] ''suspicion_level'' = Some (JStr ''unknown'')"
    by simp
  with suspicion_default [OF b'] have
    "?fs' ! 6 = JFloat (if JStr ''unknown'' = JStr ''high'' then 1 else if JStr ''unknown'' = JStr ''medium'' then 0.5
                               else if JStr ''unknown'' = JStr ''low'' then 0.25 else 0)"
    by blast
  then have r': "?fs' ! 6 = JFloat 0"
    by simp
  from b r b' r' show ?thesis by blast
qed


subsection \<open>Length and bounds\<close>

text \<open>
  Claim C6, as stated: every feature lies within its bound, features 0-3 and 5-9 in [0,1].
  Feature 2 is \<open>matching_asns / 50.0\<close> without a clamp: 100 matching ASNs give 2.0.
\<close>

theorem matching_asns_unclamped:
  "build_features sample_to_datetime \<lparr>hour = 0, weekday = 0\<rparr>
     [(''asn_correlation'', JObj [(''matching_asns'', JInt 100)])]
   = Inr [JFloat 0, JInt 0, JFloat 2, JFloat 0, JFloat 0, JFloat 0, JFloat 0.25, JFloat 0, JFloat 0, JFloat 0]
   \<and> \<not> in_range 0 1 (JFloat 2)"
  by (simp add: fb_defs)


text \<open>
  Claim C6, amended. Whenever the builder returns, on timestamps as pandas gives them, the
  vector has exactly 10 values; features 0, 3, 5, 6, 7, 8, 9 lie in [0,1] and feature 4 in
  [-1,1]; feature 1 lies in [0,1] when \<open>pattern_similarity\<close> does and feature 2 when
  \<open>matching_asns\<close> lies in [0,50].
\<close>

theorem build_features_bounds:
  assumes "build_features to_datetime now row = Inr fs" and "valid_clock to_datetime now"
  shows "length fs = 10
    \<and> in_range 0 1 (fs ! 0) \<and> in_range 0 1 (fs ! 3) \<and> in_range (- 1) 1 (fs ! 4)
    \<and> in_range 0 1 (fs ! 5) \<and> in_range 0 1 (fs ! 6) \<and> in_range 0 1 (fs ! 7)
    \<and> in_range 0 1 (fs ! 8) \<and> in_range 0 1 (fs ! 9)
    \<and> (in_range 0 1 (py_get (corr_dict row) ''pattern_similarity'' (JInt 0)) \<longrightarrow> in_range 0 1 (fs ! 1))
    \<and> (in_range 0 50 (py_get (corr_dict row) ''matching_asns'' (JInt 0)) \<longrightarrow> in_range 0 1 (fs ! 2))"
proof -
  from assms(1) obtain c tz v tm l where parts:
    "correlation_features row = Inr c" "timezone_feature row = Inr tz" "vpn_features row = Inr v"
    "time_features to_datetime now row = Inr tm" "locale_feature row = Inr l"
    and fs: "fs = c @ [JFloat tz] @ v @ tm @ [JFloat l]"
    by (rule build_features_parts)
  note cs = correlation_features_shape [OF parts(1)]
  note vs = vpn_features_shape [OF parts(3)]
  note ts = time_features_shape [OF parts(4) assms(2)]
  from cs obtain c0 c1 c2 c3 where c: "c = [c0, c1, c2, c3]" using list4 by blast
  from vs obtain v0 v1 where v: "v = [v0, v1]" using list2 by blast
  from ts obtain t0 t1 where tm: "tm = [t0, t1]" using list2 by blast
  have fs': "fs = [c0, c1, c2, c3, JFloat tz, v0, v1, t0, t1, JFloat l]"
    by (simp add: fs c v tm)
  from cs vs ts timezone_feature_range [OF parts(2)] locale_feature_range [OF parts(5)]
  show ?thesis
    unfolding fs' c v tm by simp
qed

theorem build_features_bounds_witness:
  "build_features sample_to_datetime \<lparr>hour = 9, weekday = 2\<rparr>
     [(''asn_correlation'', JObj [(''matching_asns'', JInt 25), (''visit_count'', JInt 3)]),
      (''vpn_detection'', JObj [(''is_likely_vpn'', JBool True), (''suspicion_level'', JStr ''high'')])]
   = Inr [JFloat 0, JInt 0, JFloat 0.5, JFloat 1, JFloat 0, JFloat 1, JFloat 1,
          JFloat (9 / 24), JFloat (2 / 7), JFloat 0]
   \<and> in_range 0 1 (JFloat 0.5)"
proof -
  let ?row = "[(''asn_correlation'', JObj [(''matching_asns'', JInt 25), (''visit_count'', JInt 3)]),
      (''vpn_detection'', JObj [(''is_likely_vpn'', JBool True), (''suspicion_level'', JStr ''high'')])]"
  let ?fs = "[JFloat 0, JInt 0, JFloat 0.5, JFloat 1, JFloat 0, JFloat 1, JFloat 1,
          JFloat (9 / 24), JFloat (2 / 7), JFloat 0]"
  have b: "build_features sample_to_datetime \<lparr>hour = 9, weekday = 2\<rparr> ?row = Inr ?fs"
    by (simp add: fb_defs)
  have v: "valid_clock sample_to_datetime \<lparr>hour = 9, weekday = 2\<rparr>"
    by (simp add: valid_clock_def sample_to_datetime_def)
  have m: "in_range 0 50 (py_get (corr_dict ?row) ''matching_asns'' (JInt 0))"
    by (simp add: corr_dict_def py_get_def in_range_def)
  from build_features_bounds [OF b v] m have "in_range 0 1 (?fs ! 2)"
    by blast
  with b show ?thesis by simp
qed


subsection \<open>Dependence on the clock\<close>

text \<open>
  Claim C7, as stated: the output is a function of the record alone. For a record without
  \<open>timestamp\<close> features 7 and 8 come from \<open>pd.Timestamp.now()\<close>: the same record at two
  clock readings gives two vectors.
\<close>

theorem build_features_reads_clock:
  "build_features sample_to_datetime \<lparr>hour = 0, weekday = 0\<rparr> []
   \<noteq> build_features sample_to_datetime \<lparr>hour = 12, weekday = 3\<rparr> []"
  by (simp add: fb_defs)


text \<open>
  Claim C7, amended. Features 0 to 6 and 9 do not depend on the clock: two calls on the same
  record that both return agree on them, at any two clock readings. On a record without
  \<open>timestamp\<close> the clock decides neither whether the builder returns nor which exception it
  raises, and features 7 and 8 are the hour and the weekday of the clock reading. On a
  record whose \<open>timestamp\<close> is a value that the parser parses without reading the clock, the
  whole result is the same at any two clock readings.
\<close>

theorem build_features_clock_independent:
  "(\<forall>fs fs'. build_features to_datetime now row = Inr fs
        \<and> build_features to_datetime now' row = Inr fs'
      \<longrightarrow> take 7 fs = take 7 fs' \<and> fs ! 9 = fs' ! 9)
   \<and> (map_of row ''timestamp'' = None
      \<longrightarrow> (case build_features to_datetime now row of
             Inl e \<Rightarrow> build_features to_datetime now' row = Inl e
           | Inr fs \<Rightarrow>
               fs ! 7 = JFloat (real (hour now) / 24) \<and> fs ! 8 = JFloat (real (weekday now) / 7)
               \<and> (\<exists>fs'. build_features to_datetime now' row = Inr fs')))
   \<and> (\<forall>v. map_of row ''timestamp'' = Some v \<and> parses_without_clock to_datetime v
      \<longrightarrow> build_features to_datetime now row = build_features to_datetime now' row)"
proof (intro conjI allI impI)
  fix fs fs'
  assume b: "build_features to_datetime now row = Inr fs
        \<and> build_features to_datetime now' row = Inr fs'"
  from b obtain c0 c1 c2 c3 tz v0 v1 t0 t1 l where p:
    "correlation_features row = Inr [c0, c1, c2, c3]" "timezone_feature row = Inr tz"
    "vpn_features row = Inr [v0, v1]" "locale_feature row = Inr l"
    "fs = [c0, c1, c2, c3, JFloat tz, v0, v1, t0, t1, JFloat l]"
    by (auto elim: build_features_shape)
  from b obtain c0' c1' c2' c3' tz' v0' v1' t0' t1' l' where p':
    "correlation_features row = Inr [c0', c1', c2', c3']" "timezone_feature row = Inr tz'"
    "vpn_features row = Inr [v0', v1']" "locale_feature row = Inr l'"
    "fs' = [c0', c1', c2', c3', JFloat tz', v0', v1', t0', t1', JFloat l']"
    by (auto elim: build_features_shape)
  from p p' show "take 7 fs = take 7 fs'" by simp
  from p p' show "fs ! 9 = fs' ! 9" by simp
next
  assume n: "map_of row ''timestamp'' = None"
  note t = time_features_no_timestamp [OF n, of to_datetime now]
  note t' = time_features_no_timestamp [OF n, of to_datetime now']
  show "case build_features to_datetime now row of
             Inl e \<Rightarrow> build_features to_datetime now' row = Inl e
           | Inr fs \<Rightarrow>
               fs ! 7 = JFloat (real (hour now) / 24) \<and> fs ! 8 = JFloat (real (weekday now) / 7)
               \<and> (\<exists>fs'. build_features to_datetime now' row = Inr fs')"
  proof (cases "build_features to_datetime now row")
    case (Inl e)
    then have "build_features to_datetime now' row = Inl e"
      unfolding build_features_def t t' by (simp split: sum.splits)
    with Inl show ?thesis by simp
  next
    case (Inr fs)
    then obtain c0 c1 c2 c3 tz v0 v1 t0 t1 l where p:
      "time_features to_datetime now row = Inr [t0, t1]"
      "fs = [c0, c1, c2, c3, JFloat tz, v0, v1, t0, t1, JFloat l]"
      by (auto elim: build_features_shape)
    from p(1) t have "t0 = JFloat (real (hour now) / 24) \<and> t1 = JFloat (real (weekday now) / 7)"
      by simp
    with p(2) have f: "fs ! 7 = JFloat (real (hour now) / 24) \<and> fs ! 8 = JFloat (real (weekday now) / 7)"
      by simp
    from Inr have "\<exists>fs'. build_features to_datetime now' row = Inr fs'"
      unfolding build_features_def t t' by (simp split: sum.splits)
    with f Inr show ?thesis by simp
  qed
next
  fix v
  assume a: "map_of row ''timestamp'' = Some v \<and> parses_without_clock to_datetime v"
  then have "to_datetime now v = to_datetime now' v"
    by (simp add: parses_without_clock_def)
  with a have "time_features to_datetime now row = time_features to_datetime now' row"
    by (simp add: time_features_def row_timestamp_def)
  then show "build_features to_datetime now row = build_features to_datetime now' row"
    by (simp only: build_features_def)
qed

theorem build_features_clock_independent_witness:
  "build_features sample_to_datetime \<lparr>hour = 0, weekday = 0\<rparr> []
     = Inr [JFloat 0, JFloat 0, JFloat 0, JFloat 0, JFloat 0, JFloat 0, JFloat 0.25,
            JFloat 0, JFloat 0, JFloat 0]
   \<and> build_features sample_to_datetime \<lparr>hour = 12, weekday = 3\<rparr> []
     = Inr [JFloat 0, JFloat 0, JFloat 0, JFloat 0, JFloat 0, JFloat 0, JFloat 0.25,
            JFloat (12 / 24), JFloat (3 / 7), JFloat 0]
   \<and> take 7 [JFloat 0, JFloat 0, JFloat 0, JFloat 0, JFloat 0, JFloat 0, JFloat 0.25,
            JFloat 0, JFloat 0, JFloat 0]
     = take 7 [JFloat 0, JFloat 0, JFloat 0, JFloat 0, JFloat 0, JFloat 0, JFloat 0.25,
            JFloat (12 / 24), JFloat (3 / 7), JFloat 0]
   \<and> build_features sample_to_datetime \<lparr>hour = 0, weekday = 0\<rparr> [(''timestamp'', JStr ''2024-01-01T12:00:00Z'')]
     = build_features sample_to_datetime \<lparr>hour = 12, weekday = 3\<rparr> [(''timestamp'', JStr ''2024-01-01T12:00:00Z'')]"
proof -
  let ?A = "[JFloat 0, JFloat 0, JFloat 0, JFloat 0, JFloat 0, JFloat 0, JFloat 0.25,
            JFloat 0, JFloat 0, JFloat 0]"
  let ?B = "[JFloat 0, JFloat 0, JFloat 0, JFloat 0, JFloat 0, JFloat 0, JFloat 0.25,
            JFloat (12 / 24), JFloat (3 / 7), JFloat 0]"
  let ?row = "[(''timestamp'', JStr ''2024-01-01T12:00:00Z'')]"
  have a: "build_features sample_to_datetime \<lparr>hour = 0, weekday = 0\<rparr> [] = Inr ?A"
    by (simp add: fb_defs)
  have b: "build_features sample_to_datetime \<lparr>hour = 12, weekday = 3\<rparr> [] = Inr ?B"
    by (simp add: fb_defs)
  from build_features_clock_independent
         [of sample_to_datetime "\<lparr>hour = 0, weekday = 0\<rparr>" "[]" "\<lparr>hour = 12, weekday = 3\<rparr>"] a b
  have t: "take 7 ?A = take 7 ?B"
    by blast
  have p: "map_of ?row ''timestamp'' = Some (JStr ''2024-01-01T12:00:00Z'')
      \<and> parses_without_clock sample_to_datetime (JStr ''2024-01-01T12:00:00Z'')"
    by (simp add: parses_without_clock_def sample_to_datetime_def)
  from build_features_clock_independent
         [of sample_to_datetime "\<lparr>hour = 0, weekday = 0\<rparr>" ?row "\<lparr>hour = 12, weekday = 3\<rparr>"] p
  have e: "build_features sample_to_datetime \<lparr>hour = 0, weekday = 0\<rparr> ?row
     = build_features sample_to_datetime \<lparr>hour = 12, weekday = 3\<rparr> ?row"
    by blast
  from a b t e show ?thesis by blast
qed



section \<open>Properties of the pipeline\<close>

subsection \<open>Insufficient data\<close>

lemma prepare_loop_length:
  "prepare_loop extract build df (features, labels, skipped) = Inr (features', labels', skipped')
   \<Longrightarrow> length features' = length features + length (filter (has_label extract) df)"
proof (induction df arbitrary: features labels skipped)
  case Nil
  then show ?case by simp
next
  case (Cons row rest)
  show ?case
  proof (cases "extract row")
    case (Inl e)
    with Cons.prems show ?thesis by simp
  next
    case (Inr label)
    show ?thesis
    proof (cases "has_label extract row")
      case False
      with Inr Cons.prems
      have "prepare_loop extract build rest (features, labels, skipped + 1)
              = Inr (features', labels', skipped')"
        by (auto simp: has_label_def split: option.splits if_splits)
      from Cons.IH [OF this] False show ?thesis by simp
    next
      case True
      with Inr obtain l where l: "label = Some l" "l \<noteq> []"
        by (auto simp: has_label_def split: option.splits)
      with Inr Cons.prems obtain feat where
        "prepare_loop extract build rest (features @ [feat], labels @ [l], skipped)
              = Inr (features', labels', skipped')"
        by (auto split: sum.splits)
      from Cons.IH [OF this] True show ?thesis by simp
    qed
  qed
qed

text \<open>
  Claim C8. When the assembler returns, its samples are as many as the rows of the frame
  for which the extractor returns a non-empty label; when these are fewer than 50, \<open>run\<close>
  returns \<open>False\<close> and its trace is empty: no training, no export and no metadata write.
  This holds whatever \<open>extract_label\<close> and \<open>build_features\<close> do on the rows of the frame.
\<close>

theorem insufficient_samples_abort:
  assumes "prepare_training_data extract build df = Inr (X, y, le)"
    and "length (filter (has_label extract) df) < 50"
  shows "length X = length (filter (has_label extract) df)
    \<and> run train export_onnx extract build df test_size num_rounds = (Inr False, [])"
proof -
  from assms(1) obtain labels skipped where
    "prepare_loop extract build df ([], [], 0) = Inr (X, labels, skipped)"
    by (auto simp: prepare_training_data_def split: sum.splits prod.splits)
  from prepare_loop_length [OF this] have n: "length X = length (filter (has_label extract) df)"
    by simp
  with assms(2) have "length X < 50"
    by simp
  with assms(1) n show ?thesis
    by (simp add: run_def)
qed

theorem insufficient_samples_abort_witness:
  "run (\<lambda>X y test_size num_rounds. Inr ()) (\<lambda>model width. Inr ()) extract_label
     (build_features sample_to_datetime \<lparr>hour = 9, weekday = 2\<rparr>)
     [[(''geoip_city'', JStr ''Tokyo'')]] 0.2 100
   = (Inr False, [])"
proof -
  let ?row = "[(''geoip_city'', JStr ''Tokyo'')]"
  let ?build = "build_features sample_to_datetime \<lparr>hour = 9, weekday = 2\<rparr>"
  have l: "extract_label ?row = Inr (Some ''ap-tok'')"
    by (simp add: extract_label_def geoip_step_def py_get_def REGION_DEFINITIONS_def
          lower_def lower_char_def)
  have f: "?build ?row
      = Inr [JFloat 0, JFloat 0, JFloat 0, JFloat 0, JFloat 0, JFloat 0, JFloat 0.25,
             JFloat (9 / 24), JFloat (2 / 7), JFloat 0]"
    by (simp add: fb_defs)
  have p: "prepare_training_data extract_label ?build [?row]
      = Inr ([[JFloat 0, JFloat 0, JFloat 0, JFloat 0, JFloat 0, JFloat 0, JFloat 0.25,
               JFloat (9 / 24), JFloat (2 / 7), JFloat 0]], [0], [''ap-tok''])"
    by (simp add: prepare_training_data_def l f fit_transform_def label_classes_def)
  have c: "length (filter (has_label extract_label) [?row]) < 50"
    by (simp add: has_label_def l)
  from insufficient_samples_abort [OF p c] show ?thesis
    by blast
qed

subsection \<open>Label encoding and class map\<close>














end
